theory Spec2Isabelle
  imports Complex_Main "HOL-Library.Sublist" "HOL-Library.Word" "HOL-Library.Multiset"
begin

section \<open>JavaScript values\<close>

text \<open>
  A JavaScript string is modelled as a \<^typ>\<open>string\<close>: one \<^typ>\<open>char\<close> per UTF-16 code
  unit, for code units below 256 (the Latin-1 repertoire). On that repertoire
  \<open>toLowerCase\<close> is a map over the code units and \<open>trim\<close> removes the seven white-space
  and line-terminator code units from both ends. A JavaScript \<open>number\<close> is modelled as an
  exact \<^typ>\<open>real\<close>: the rounding of IEEE doubles is not part of the model.
\<close>

definition toLowerChar :: "char \<Rightarrow> char" where
  "toLowerChar c =
     (let n = (of_char c :: nat)
      in if (65 \<le> n \<and> n \<le> 90) \<or> (192 \<le> n \<and> n \<le> 222 \<and> n \<noteq> 215)
         then char_of (n + 32) else c)"

definition toLowerCase :: "string \<Rightarrow> string" where
  "toLowerCase s = map toLowerChar s"

definition isWhiteSpace :: "char \<Rightarrow> bool" where
  "isWhiteSpace c = ((of_char c :: nat) \<in> {9, 10, 11, 12, 13, 32, 160})"

definition trim :: "string \<Rightarrow> string" where
  "trim s = rev (dropWhile isWhiteSpace (rev (dropWhile isWhiteSpace s)))"

text \<open>\<open>s.includes(t)\<close>: \<open>t\<close> occurs in \<open>s\<close> as a contiguous run (always, when \<open>t\<close> is empty).\<close>

fun str_includes :: "string \<Rightarrow> string \<Rightarrow> bool" where
  "str_includes [] t = (t = [])"
| "str_includes (x # xs) t = (prefix t (x # xs) \<or> str_includes xs t)"

text \<open>\<open>Math.round\<close>: the nearest integer, a tie going up.\<close>

definition Math_round :: "real \<Rightarrow> real" where
  "Math_round x = of_int \<lfloor>x + 1 / 2\<rfloor>"

text \<open>
  \<open>Array.prototype.sort\<close> with a comparator is a stable sort; for a comparator that is
  a consistent order the result is the one that stable insertion gives.
\<close>

fun insert_by :: "('a \<Rightarrow> 'a \<Rightarrow> real) \<Rightarrow> 'a \<Rightarrow> 'a list \<Rightarrow> 'a list" where
  "insert_by cmp x [] = [x]"
| "insert_by cmp x (y # ys) =
     (if cmp x y \<le> 0 then x # y # ys else y # insert_by cmp x ys)"

definition js_sort :: "('a \<Rightarrow> 'a \<Rightarrow> real) \<Rightarrow> 'a list \<Rightarrow> 'a list" where
  "js_sort cmp xs = foldr (insert_by cmp) xs []"

section \<open>competencyScorer.ts\<close>

subsection \<open>Data\<close>

text \<open>
  The scorer takes its skills as \<open>{ skill: string; confidence: number; category: string }\<close>;
  the parser's \<open>ExtractedSkill\<close> is the same shape with \<open>category\<close> one of three string
  literals, so one record serves both.
\<close>

record ExtractedSkill =
  skill :: string
  confidence :: real
  category :: string

datatype ProficiencyLevel = Beginner | Intermediate | Advanced | Expert

record CompetencyMatch =
  competency :: string
  extractedSkill :: string
  confidenceScore :: real
  proficiencyLevel :: ProficiencyLevel
  gap :: bool

record ScoringResult =
  overallFitScore :: real
  rankingScore :: real
  competencyMatches :: "CompetencyMatch list"
  skillGaps :: "string list"
  strengths :: "string list"
  recommendations :: string
  culturalFitIndex :: real

definition PROFICIENCY_LEVELS_expert :: "string list" where
  "PROFICIENCY_LEVELS_expert = [''expert'', ''senior'', ''lead'', ''architect'', ''10+'', ''years'']"

definition PROFICIENCY_LEVELS_advanced :: "string list" where
  "PROFICIENCY_LEVELS_advanced = [''advanced'', ''proficient'', ''5-10'', ''years'']"

definition PROFICIENCY_LEVELS_intermediate :: "string list" where
  "PROFICIENCY_LEVELS_intermediate = [''intermediate'', ''competent'', ''2-5'', ''years'']"

subsection \<open>Similarity\<close>

text \<open>
  \<open>getEditDistance\<close> keeps one row \<open>costs\<close> of the distance table. Row \<open>i = 0\<close> writes
  \<open>costs[j] = j\<close> for \<open>j = 0..s2.length\<close>, each write appending to the array. A row
  \<open>i > 0\<close> runs \<open>j = 1..s2.length\<close> with the value \<open>lastValue\<close> of the cell to the left,
  overwrites \<open>costs[j - 1]\<close>, and stores the last cell after the inner loop.
\<close>

definition edit_cell :: "string \<Rightarrow> string \<Rightarrow> nat \<Rightarrow> nat list \<times> nat \<Rightarrow> nat \<Rightarrow> nat list \<times> nat" where
  "edit_cell s1 s2 i st j =
     (case st of (costs, lastValue) \<Rightarrow>
        if i = 0 then (costs @ [j], lastValue)
        else if j > 0 then
          (let newValue = costs ! (j - 1);
               newValue = (if s1 ! (i - 1) \<noteq> s2 ! (j - 1)
                           then min (min newValue lastValue) (costs ! j) + 1
                           else newValue)
           in (costs[j - 1 := lastValue], newValue))
        else (costs, lastValue))"

definition edit_row :: "string \<Rightarrow> string \<Rightarrow> nat list \<Rightarrow> nat \<Rightarrow> nat list" where
  "edit_row s1 s2 costs i =
     (case foldl (edit_cell s1 s2 i) (costs, i) [0..<Suc (length s2)] of
        (costs', lastValue) \<Rightarrow>
          if i > 0 then costs'[length s2 := lastValue] else costs')"

definition getEditDistance :: "string \<Rightarrow> string \<Rightarrow> nat" where
  "getEditDistance s1 s2 = foldl (edit_row s1 s2) [] [0..<Suc (length s1)] ! length s2"

definition calculateSimilarity :: "string \<Rightarrow> string \<Rightarrow> real" where
  "calculateSimilarity str1 str2 =
     (let s1 = trim (toLowerCase str1);
          s2 = trim (toLowerCase str2)
      in if s1 = s2 then 1
         else if str_includes s1 s2 \<or> str_includes s2 s1 then 0.85
         else
           (let longer = (if length s1 > length s2 then s1 else s2);
                shorter = (if length s1 > length s2 then s2 else s1)
            in if length longer = 0 then 1
               else
                 (let editDistance = getEditDistance shorter longer
                  in 1 - real editDistance / real (length longer))))"

subsection \<open>Matching and scoring\<close>

definition inferProficiencyLevel :: "string \<Rightarrow> ProficiencyLevel" where
  "inferProficiencyLevel skill_label =
     (let lower = toLowerCase skill_label
      in if list_ex (str_includes lower) PROFICIENCY_LEVELS_expert then Expert
         else if list_ex (str_includes lower) PROFICIENCY_LEVELS_advanced then Advanced
         else if list_ex (str_includes lower) PROFICIENCY_LEVELS_intermediate then Intermediate
         else Beginner)"

text \<open>
  The inner \<open>forEach\<close> of \<open>matchCompetencies\<close>: one step per extracted skill, on the pair
  \<open>(bestMatch, bestSimilarity)\<close>.
\<close>

definition match_step ::
  "string \<Rightarrow> CompetencyMatch option \<times> real \<Rightarrow> ExtractedSkill \<Rightarrow> CompetencyMatch option \<times> real" where
  "match_step required st extracted =
     (case st of (bestMatch, bestSimilarity) \<Rightarrow>
        (let similarity = calculateSimilarity required (skill extracted)
         in if similarity > bestSimilarity \<and> similarity > 0.5
            then (Some \<lparr>competency = required,
                        extractedSkill = skill extracted,
                        confidenceScore = similarity * confidence extracted,
                        proficiencyLevel = inferProficiencyLevel (skill extracted),
                        gap = False\<rparr>,
                  similarity)
            else (bestMatch, bestSimilarity)))"

definition match_one :: "ExtractedSkill list \<Rightarrow> string \<Rightarrow> CompetencyMatch" where
  "match_one extractedSkills required =
     (case fst (foldl (match_step required) (None, 0) extractedSkills) of
        Some bestMatch \<Rightarrow> bestMatch
      | None \<Rightarrow> \<lparr>competency = required,
                  extractedSkill = [],
                  confidenceScore = 0,
                  proficiencyLevel = Beginner,
                  gap = True\<rparr>)"

definition matchCompetencies :: "ExtractedSkill list \<Rightarrow> string list \<Rightarrow> CompetencyMatch list" where
  "matchCompetencies extractedSkills requiredCompetencies =
     js_sort (\<lambda>a b. confidenceScore b - confidenceScore a)
       (map (match_one extractedSkills) requiredCompetencies)"

definition identifySkillGaps :: "CompetencyMatch list \<Rightarrow> string list \<Rightarrow> string list" where
  "identifySkillGaps ms requiredCompetencies = map competency (filter gap ms)"

definition levelName :: "ProficiencyLevel \<Rightarrow> string" where
  "levelName l = (case l of Beginner \<Rightarrow> ''Beginner'' | Intermediate \<Rightarrow> ''Intermediate''
                  | Advanced \<Rightarrow> ''Advanced'' | Expert \<Rightarrow> ''Expert'')"

definition identifyStrengths :: "CompetencyMatch list \<Rightarrow> string list" where
  "identifyStrengths ms =
     map (\<lambda>m. extractedSkill m @ '' ('' @ levelName (proficiencyLevel m) @ '')'')
       (take 5 (filter (\<lambda>m. \<not> gap m \<and> confidenceScore m > 0.7) ms))"

definition assessCulturalFit :: "string \<Rightarrow> ExtractedSkill list \<Rightarrow> real" where
  "assessCulturalFit resumeText extractedSkills =
     (let text = toLowerCase resumeText;
          fitScore = 50;
          fitScore = (if str_includes text ''agile'' \<or> str_includes text ''scrum'' \<or> str_includes text ''sprint''
                      then fitScore + 10 else fitScore);
          fitScore = (if str_includes text ''collaborate'' \<or> str_includes text ''teamwork''
                         \<or> str_includes text ''cross-functional''
                      then fitScore + 10 else fitScore);
          fitScore = (if str_includes text ''innovation'' \<or> str_includes text ''creative''
                      then fitScore + 5 else fitScore);
          fitScore = (if str_includes text ''leadership'' \<or> str_includes text ''mentor''
                      then fitScore + 8 else fitScore);
          softSkills = filter (\<lambda>s. category s = ''soft'') extractedSkills;
          fitScore = fitScore + min (real (length softSkills) * 2) 15
      in min 100 fitScore)"

definition calculateOverallFitScore :: "CompetencyMatch list \<Rightarrow> nat \<Rightarrow> real" where
  "calculateOverallFitScore ms totalRequired =
     (if totalRequired = 0 then 50
      else
        (let matchedCount = length (filter (\<lambda>m. \<not> gap m) ms);
             confidenceAvg = foldl (\<lambda>sum m. sum + confidenceScore m) 0 ms / real totalRequired;
             matchPercentage = real matchedCount / real totalRequired * 100;
             confidenceScore' = confidenceAvg * 100
         in Math_round (matchPercentage * 0.6 + confidenceScore' * 0.4)))"

definition calculateRankingScore :: "real \<Rightarrow> real \<Rightarrow> nat \<Rightarrow> real" where
  "calculateRankingScore overallFit culturalFit gapCount =
     (let fitComponent = overallFit * 0.5;
          culturalComponent = culturalFit * 0.3;
          gapComponent = max 0 ((1 - real gapCount * 0.15) * 100) * 0.2
      in Math_round (fitComponent + culturalComponent + gapComponent))"

definition generateRecommendations :: "real \<Rightarrow> string list \<Rightarrow> real \<Rightarrow> string" where
  "generateRecommendations overallFit gaps culturalFit =
     (if overallFit > 80 \<and> culturalFit > 75 then ''Highly Recommended - Schedule Interview''
      else if overallFit > 65 \<and> length gaps \<le> 2 then ''Recommended - Consider for Technical Round''
      else if overallFit > 50 then ''Potential Fit - Request Additional Info''
      else if length gaps > 5 then ''Requires Training - Consider for Entry Level''
      else ''Not Recommended - Skill Gap Too Large'')"

definition scoreCompetencies :: "ExtractedSkill list \<Rightarrow> string list \<Rightarrow> string \<Rightarrow> ScoringResult" where
  "scoreCompetencies extractedSkills requiredCompetencies resumeText =
     (let ms = matchCompetencies extractedSkills requiredCompetencies;
          gaps = identifySkillGaps ms requiredCompetencies;
          strong = identifyStrengths ms;
          cultural = assessCulturalFit resumeText extractedSkills;
          overall = calculateOverallFitScore ms (length requiredCompetencies);
          ranking = calculateRankingScore overall cultural (length gaps);
          recommendation = generateRecommendations overall gaps cultural
      in \<lparr>overallFitScore = overall,
          rankingScore = ranking,
          competencyMatches = ms,
          skillGaps = gaps,
          strengths = strong,
          recommendations = recommendation,
          culturalFitIndex = cultural\<rparr>)"

subsection \<open>The edit distance of the specification\<close>

text \<open>
  The specification asks for the classic Levenshtein distance. It is stated here in the
  specification's own terms, by the textbook recurrence on prefixes (\<open>lev_prefix a b i j\<close>
  is the distance between the first \<open>i\<close> elements of \<open>a\<close> and the first \<open>j\<close> of \<open>b\<close>),
  to be compared with \<open>getEditDistance\<close>, which is the code.
\<close>

fun lev_prefix :: "'a list \<Rightarrow> 'a list \<Rightarrow> nat \<Rightarrow> nat \<Rightarrow> nat" where
  "lev_prefix a b 0 j = j"
| "lev_prefix a b (Suc i) 0 = Suc i"
| "lev_prefix a b (Suc i) (Suc j) =
     min (min (lev_prefix a b i (Suc j) + 1) (lev_prefix a b (Suc i) j + 1))
         (lev_prefix a b i j + (if a ! i = b ! j then 0 else 1))"

definition levenshtein :: "'a list \<Rightarrow> 'a list \<Rightarrow> nat" where
  "levenshtein a b = lev_prefix a b (length a) (length b)"

section \<open>resumeParser.ts\<close>

subsection \<open>Regular expressions\<close>

text \<open>
  The regular expressions of the parser use literal characters, character classes,
  alternation, capturing groups, \<open>^\<close>, \<open>\b\<close>, and greedy quantifiers applied to one character
  class; none uses the flag \<open>m\<close>. \<open>Rep p lo hi\<close> is the class \<open>p\<close> repeated at least \<open>lo\<close>
  and at most \<open>hi\<close> times, greedily; with \<open>hi = None\<close> it is unbounded, and runs with the
  number of code units left as its bound, since every repetition consumes one.

  Matching follows the backtracking semantics of ECMAScript: \<open>rmatch r st\<close> lists the
  states in which \<open>r\<close> can end when started in \<open>st\<close>, in the order in which backtracking
  tries them (the left alternative first, the longest repetition first), so the head of
  the list is the match the engine reports. A state holds the index where the attempt
  started, the current index, the code unit before it, the rest of the input and the
  groups closed so far.
\<close>

datatype regex =
    Chr "char \<Rightarrow> bool"
  | Emp
  | Cat regex regex
  | Or regex regex
  | Rep "char \<Rightarrow> bool" nat "nat option"
  | Grp nat regex
  | Bol
  | Wordb

type_synonym captures = "(nat \<times> nat \<times> nat) list"

type_synonym mstate = "nat \<times> nat \<times> char option \<times> string \<times> captures"

fun step_chr :: "(char \<Rightarrow> bool) \<Rightarrow> mstate \<Rightarrow> mstate list" where
  "step_chr p (b, i, prev, [], caps) = []"
| "step_chr p (b, i, prev, x # xs, caps) =
     (if p x then [(b, Suc i, Some x, xs, caps)] else [])"

fun rep_cls :: "(char \<Rightarrow> bool) \<Rightarrow> nat \<Rightarrow> nat \<Rightarrow> mstate \<Rightarrow> mstate list" where
  "rep_cls p lo 0 st = (if lo = 0 then [st] else [])"
| "rep_cls p lo (Suc hi) st =
     concat (map (rep_cls p (lo - 1) hi) (step_chr p st)) @ (if lo = 0 then [st] else [])"

text \<open>
  The classes \<open>\s\<close>, \<open>\d\<close>, \<open>[a-z]\<close> under the flag \<open>i\<close>, \<open>\w\<close>, and the line terminators
  that \<open>.\<close> excludes, on the modelled code units. Under the flag \<open>i\<close> a pattern character
  matches the code units with the same canonical form, which on these code units are the
  ones with the same lower-case form.
\<close>

definition isWordChar :: "char \<Rightarrow> bool" where
  "isWordChar c = (let n = (of_char c :: nat)
                   in (48 \<le> n \<and> n \<le> 57) \<or> (65 \<le> n \<and> n \<le> 90) \<or> n = 95 \<or> (97 \<le> n \<and> n \<le> 122))"

definition isDigit :: "char \<Rightarrow> bool" where
  "isDigit c = (let n = (of_char c :: nat) in 48 \<le> n \<and> n \<le> 57)"

definition isLetter :: "char \<Rightarrow> bool" where
  "isLetter c = (let n = (of_char c :: nat) in (65 \<le> n \<and> n \<le> 90) \<or> (97 \<le> n \<and> n \<le> 122))"

definition isLineTerminator :: "char \<Rightarrow> bool" where
  "isLineTerminator c = ((of_char c :: nat) \<in> {10, 13})"

definition same_letter :: "char \<Rightarrow> char \<Rightarrow> bool" where
  "same_letter c x = (toLowerChar x = toLowerChar c)"

fun close_group :: "nat \<Rightarrow> nat \<Rightarrow> mstate \<Rightarrow> mstate" where
  "close_group g i (b, j, prev, rest, caps) = (b, j, prev, rest, (g, i, j) # caps)"

fun at_start :: "mstate \<Rightarrow> bool" where
  "at_start (b, i, prev, rest, caps) = (i = 0)"

fun at_word_boundary :: "mstate \<Rightarrow> bool" where
  "at_word_boundary (b, i, prev, rest, caps) =
     ((case prev of Some x \<Rightarrow> isWordChar x | None \<Rightarrow> False)
      \<noteq> (case rest of y # ys \<Rightarrow> isWordChar y | [] \<Rightarrow> False))"

fun position :: "mstate \<Rightarrow> nat" where
  "position (b, i, prev, rest, caps) = i"

fun remaining :: "mstate \<Rightarrow> nat" where
  "remaining (b, i, prev, rest, caps) = length rest"

fun rmatch :: "regex \<Rightarrow> mstate \<Rightarrow> mstate list" where
  "rmatch (Chr p) st = step_chr p st"
| "rmatch Emp st = [st]"
| "rmatch (Cat a b) st = concat (map (rmatch b) (rmatch a st))"
| "rmatch (Or a b) st = rmatch a st @ rmatch b st"
| "rmatch (Rep p lo hi) st =
     rep_cls p lo (case hi of Some h \<Rightarrow> h | None \<Rightarrow> remaining st) st"
| "rmatch (Grp g a) st = map (close_group g (position st)) (rmatch a st)"
| "rmatch Bol st = (if at_start st then [st] else [])"
| "rmatch Wordb st = (if at_word_boundary st then [st] else [])"

text \<open>
  \<open>exec_from re s lastIndex\<close> is the search of \<open>RegExpBuiltinExec\<close>: the first index from
  \<open>lastIndex\<close> on at which \<open>re\<close> matches, with the end of the match and its groups.
  \<open>str_match\<close> is \<open>String.prototype.match\<close> for a regex without the flag \<open>g\<close> (the search
  starts at 0). \<open>regex_test\<close> is \<open>RegExp.prototype.test\<close> for a regex with the flag \<open>g\<close>:
  it starts at the regex object's \<open>lastIndex\<close> and returns the new \<open>lastIndex\<close> with the
  answer: the end of the match, or 0 when there is none. \<open>captured s c g\<close> is the text of
  group \<open>g\<close>; every group read below takes part in every match of its regex.
\<close>

fun starts :: "nat \<Rightarrow> char option \<Rightarrow> string \<Rightarrow> mstate list" where
  "starts i prev [] = [(i, i, prev, [], [])]"
| "starts i prev (x # xs) = (i, i, prev, x # xs, []) # starts (Suc i) (Some x) xs"

fun first_match :: "mstate list \<Rightarrow> (nat \<times> nat \<times> captures) option" where
  "first_match [] = None"
| "first_match ((b, i, prev, rest, caps) # ms) = Some (b, i, caps)"

definition exec_from :: "regex \<Rightarrow> string \<Rightarrow> nat \<Rightarrow> (nat \<times> nat \<times> captures) option" where
  "exec_from re s lastIndex =
     first_match (concat (map (rmatch re) (drop lastIndex (starts 0 None s))))"

definition substring :: "string \<Rightarrow> nat \<Rightarrow> nat \<Rightarrow> string" where
  "substring s i j = take (j - i) (drop i s)"

definition captured :: "string \<Rightarrow> captures \<Rightarrow> nat \<Rightarrow> string" where
  "captured s c g = (case map_of c g of Some (i, j) \<Rightarrow> substring s i j | None \<Rightarrow> [])"

definition str_match :: "regex \<Rightarrow> string \<Rightarrow> (nat \<times> nat \<times> captures) option" where
  "str_match re s = exec_from re s 0"

definition regex_test :: "regex \<Rightarrow> nat \<Rightarrow> string \<Rightarrow> bool \<times> nat" where
  "regex_test re lastIndex s =
     (if lastIndex > length s then (False, 0)
      else case exec_from re s lastIndex of
             Some (i, j, c) \<Rightarrow> (True, j)
           | None \<Rightarrow> (False, 0))"

text \<open>
  Pattern text: \<open>ci c\<close> is one pattern character under the flag \<open>i\<close>, \<open>lit s\<close> a run of
  them, \<open>alts\<close> an alternation.
\<close>

definition ci :: "char \<Rightarrow> regex" where
  "ci c = Chr (same_letter c)"

definition lit :: "string \<Rightarrow> regex" where
  "lit s = foldr (\<lambda>c r. Cat (ci c) r) s Emp"

fun alts :: "regex list \<Rightarrow> regex" where
  "alts [] = Emp"
| "alts [r] = r"
| "alts (r # rs) = Or r (alts rs)"

text \<open>
  \<open>split_lines\<close> is \<open>split('\n')\<close>. \<open>parseInt\<close> is applied only to runs of decimal digits
  that \<open>\d\<close> matched.
\<close>

fun split_lines :: "string \<Rightarrow> string list" where
  "split_lines [] = [[]]"
| "split_lines (c # cs) =
     (if c = CHR 0x0A then [] # split_lines cs
      else (case split_lines cs of
              l # ls \<Rightarrow> (c # l) # ls
            | [] \<Rightarrow> [[c]]))"

definition parseInt :: "string \<Rightarrow> int" where
  "parseInt ds = foldl (\<lambda>n d. 10 * n + (int (of_char d) - 48)) 0 ds"

subsection \<open>Data\<close>

datatype js_error = SyntaxError

datatype EducationLevel = HighSchool | Bachelor | Master | PhD | Certification

record ExtractedEducation =
  degree :: string
  field :: string
  institution :: string
  year :: "int option"
  level :: EducationLevel

record ExtractedExperience =
  jobTitle :: string
  company :: string
  duration :: string
  yearsInRole :: int
  responsibilities :: "string list"
  skills :: "string list"

record ParsedResume =
  skills :: "ExtractedSkill list"
  education :: "ExtractedEducation list"
  experience :: "ExtractedExperience list"
  totalYearsExperience :: real
  summary :: string
  embeddings :: "real list"
  extractionScore :: real

definition TECHNICAL_KEYWORDS :: "string list" where
  "TECHNICAL_KEYWORDS =
    [''React'', ''Node.js'', ''Python'', ''JavaScript'', ''TypeScript'', ''Java'', ''C++'', ''SQL'', ''MongoDB'',
     ''AWS'', ''Azure'', ''Docker'', ''Kubernetes'', ''Git'', ''REST API'', ''GraphQL'', ''Machine Learning'',
     ''Data Science'', ''TensorFlow'', ''PyTorch'', ''BERT'', ''NLP'', ''Deep Learning'', ''Vue.js'', ''Angular'',
     ''Express'', ''Django'', ''Flask'', ''Spring Boot'', ''PostgreSQL'', ''Firebase'', ''Supabase'',
     ''CI/CD'', ''DevOps'', ''Linux'', ''Agile'', ''Scrum'', ''JIRA'', ''Figma'', ''UI/UX'']"

definition SOFT_KEYWORDS :: "string list" where
  "SOFT_KEYWORDS =
    [''Leadership'', ''Communication'', ''Problem Solving'', ''Teamwork'', ''Adaptability'',
     ''Critical Thinking'', ''Time Management'', ''Creativity'', ''Analytical'', ''Strategic'',
     ''Negotiation'', ''Mentoring'', ''Project Management'', ''Decision Making'', ''Collaboration'',
     ''Attention to Detail'', ''Reliability'', ''Work Ethic'', ''Flexibility'', ''Innovation'']"

text \<open>
  The five \<open>EDUCATION_PATTERNS\<close> (\<open>/bachelor|b\.s|b\.a|undergraduate/gi\<close>, \<open>/master|m\.s|m\.a|graduate/gi\<close>,
  \<open>/phd|doctorate/gi\<close>, \<open>/certification|certified|cert/gi\<close>, \<open>/high school|secondary/gi\<close>)
  are regex literals with the flags \<open>gi\<close>, created once when
  the module is loaded. A regex with the flag \<open>g\<close> keeps its \<open>lastIndex\<close> between calls of
  \<open>test\<close>: that is the state of the module, a list of five indices, all 0 after loading.
\<close>

definition EDUCATION_PATTERNS :: "(regex \<times> EducationLevel) list" where
  "EDUCATION_PATTERNS =
    [(alts [lit ''bachelor'', lit ''b.s'', lit ''b.a'', lit ''undergraduate''], Bachelor),
     (alts [lit ''master'', lit ''m.s'', lit ''m.a'', lit ''graduate''], Master),
     (alts [lit ''phd'', lit ''doctorate''], PhD),
     (alts [lit ''certification'', lit ''certified'', lit ''cert''], Certification),
     (alts [lit ''high school'', lit ''secondary''], HighSchool)]"

subsection \<open>extractSkills\<close>

text \<open>
  For every keyword the code builds \<open>new RegExp(`\\b${skill.toLowerCase()}\\b`, 'gi')\<close>: the
  lower-cased keyword is spliced into the pattern text unescaped, and the constructor
  parses it and throws a \<open>SyntaxError\<close> when it is not a pattern. \<open>parse_terms\<close> parses the
  spliced text for the pattern syntax that occurs in the two vocabularies: \<open>.\<close> matches
  any code unit but a line terminator, \<open>+\<close> is a quantifier on the atom before it and is
  an error where no atom precedes it (at the start, or after another quantifier), every
  other character of the vocabularies stands for itself. The fresh regex is tested once,
  from \<open>lastIndex = 0\<close>.
\<close>

fun parse_terms :: "string \<Rightarrow> js_error + regex" where
  "parse_terms [] = Inr Emp"
| "parse_terms (c # cs) =
     (if c = CHR ''+'' then Inl SyntaxError
      else
        (let atom = (if c = CHR ''.'' then (\<lambda>x. \<not> isLineTerminator x) else same_letter c)
         in case cs of
              [] \<Rightarrow> Inr (Cat (Chr atom) Emp)
            | q # rest \<Rightarrow>
                if q = CHR ''+''
                then (case parse_terms rest of Inl e \<Rightarrow> Inl e | Inr r \<Rightarrow> Inr (Cat (Rep atom 1 None) r))
                else (case parse_terms cs of Inl e \<Rightarrow> Inl e | Inr r \<Rightarrow> Inr (Cat (Chr atom) r))))"

definition RegExp_keyword :: "string \<Rightarrow> js_error + regex" where
  "RegExp_keyword kw =
     (case parse_terms (toLowerCase kw) of
        Inl e \<Rightarrow> Inl e
      | Inr r \<Rightarrow> Inr (Cat Wordb (Cat r Wordb)))"

fun scan_keywords ::
  "string list \<Rightarrow> real \<Rightarrow> string \<Rightarrow> string \<Rightarrow> ExtractedSkill list \<Rightarrow> js_error + ExtractedSkill list" where
  "scan_keywords [] conf cat processedText acc = Inr acc"
| "scan_keywords (kw # kws) conf cat processedText acc =
     (case RegExp_keyword kw of
        Inl e \<Rightarrow> Inl e
      | Inr re \<Rightarrow>
          scan_keywords kws conf cat processedText
            (case exec_from re processedText 0 of
               Some m \<Rightarrow> acc @ [\<lparr>skill = kw, confidence = conf, category = cat\<rparr>]
             | None \<Rightarrow> acc))"

text \<open>
  \<open>new Map(entries)\<close> sets the entries in order: setting a key that is present replaces
  its value and keeps its place, setting a new key appends it; \<open>values()\<close> lists the
  values in the order of the keys.
\<close>

fun Map_set :: "('k \<times> 'v) list \<Rightarrow> 'k \<Rightarrow> 'v \<Rightarrow> ('k \<times> 'v) list" where
  "Map_set [] k v = [(k, v)]"
| "Map_set ((k', v') # es) k v = (if k' = k then (k', v) # es else (k', v') # Map_set es k v)"

definition uniqueSkills :: "ExtractedSkill list \<Rightarrow> ExtractedSkill list" where
  "uniqueSkills hits = map snd (foldl (\<lambda>m s. Map_set m (toLowerCase (skill s)) s) [] hits)"

definition extractSkills :: "string \<Rightarrow> js_error + ExtractedSkill list" where
  "extractSkills resumeText =
     (let processedText = toLowerCase resumeText
      in case scan_keywords TECHNICAL_KEYWORDS 0.9 ''technical'' processedText [] of
           Inl e \<Rightarrow> Inl e
         | Inr technical \<Rightarrow>
             (case scan_keywords SOFT_KEYWORDS 0.75 ''soft'' processedText technical of
                Inl e \<Rightarrow> Inl e
              | Inr hits \<Rightarrow>
                  Inr (take 30 (js_sort (\<lambda>a b. confidence b - confidence a) (uniqueSkills hits)))))"

subsection \<open>extractEducation\<close>

text \<open>
  The degree phrase \<open>/([a-z\s&]{2,50})\s+in\s+([a-z\s]{2,50})/i\<close>, the year
  \<open>/\b(19|20)\d{2}\b/\<close> and the institution \<open>/(?:from|at|,)\s+([a-z\s&\.]{2,50})/i\<close>.
\<close>

definition degree_re :: regex where
  "degree_re =
     Cat (Grp 1 (Rep ((\<lambda>c. isLetter c \<or> isWhiteSpace c \<or> c = CHR ''&'')) 2 (Some 50)))
    (Cat (Rep isWhiteSpace 1 None) (Cat (lit ''in'') (Cat (Rep isWhiteSpace 1 None)
         (Grp 2 (Rep ((\<lambda>c. isLetter c \<or> isWhiteSpace c)) 2 (Some 50))))))"

definition year_re :: regex where
  "year_re = Cat Wordb (Cat (Grp 1 (Or (lit ''19'') (lit ''20''))) (Cat (Rep isDigit 2 (Some 2)) Wordb))"

definition institution_re :: regex where
  "institution_re =
     Cat (alts [lit ''from'', lit ''at'', lit '','']) (Cat (Rep isWhiteSpace 1 None)
         (Grp 1 (Rep ((\<lambda>c. isLetter c \<or> isWhiteSpace c \<or> c = CHR ''&'' \<or> c = CHR ''.'')) 2 (Some 50))))"

definition extractInstitution :: "string \<Rightarrow> string" where
  "extractInstitution line =
     (case str_match institution_re line of
        Some (i, j, c) \<Rightarrow> trim (captured line c 1)
      | None \<Rightarrow> ''Unknown'')"

text \<open>
  \<open>test_patterns\<close> is the inner \<open>for\<close> loop with its \<open>break\<close>: it tests the patterns in order,
  each from its own \<open>lastIndex\<close>, and stops at the first that succeeds; every test it made
  has updated the \<open>lastIndex\<close> of its regex.
\<close>

fun test_patterns ::
  "(regex \<times> EducationLevel) list \<Rightarrow> nat list \<Rightarrow> string \<Rightarrow> EducationLevel option \<times> nat list" where
  "test_patterns ((re, lvl) # ps) (li # lis) line =
     (case regex_test re li line of
        (True, li') \<Rightarrow> (Some lvl, li' # lis)
      | (False, li') \<Rightarrow> (case test_patterns ps lis line of (r, lis') \<Rightarrow> (r, li' # lis')))"
| "test_patterns ps lis line = (None, lis)"

definition education_line ::
  "ExtractedEducation list \<times> nat list \<Rightarrow> string \<Rightarrow> ExtractedEducation list \<times> nat list" where
  "education_line st line =
     (case st of (found, lis) \<Rightarrow>
        (case test_patterns EDUCATION_PATTERNS lis line of
           (None, lis') \<Rightarrow> (found, lis')
         | (Some lvl, lis') \<Rightarrow>
             (let degreeMatch = str_match degree_re line;
                  yearMatch = str_match year_re line
              in case degreeMatch of
                   Some (i, j, c) \<Rightarrow>
                     (found @ [\<lparr>degree = trim (captured line c 1),
                                field = trim (captured line c 2),
                                institution = extractInstitution line,
                                year = (case yearMatch of
                                          Some (yi, yj, yc) \<Rightarrow> Some (parseInt (substring line yi yj))
                                        | None \<Rightarrow> None),
                                level = lvl\<rparr>], lis')
                 | None \<Rightarrow> (found, lis'))))"

definition extractEducation :: "nat list \<Rightarrow> string \<Rightarrow> ExtractedEducation list \<times> nat list" where
  "extractEducation lastIndexes resumeText =
     foldl education_line ([], lastIndexes) (split_lines resumeText)"

subsection \<open>extractExperience\<close>

text \<open>
  The job title \<open>/(?:^|\s)(software engineer|developer|...|qa engineer)/i\<close>, the company
  \<open>/(?:at|@|,)\s+([a-z0-9&\s\.]{2,50})/i\<close>, the duration
  \<open>/(\d{4})\s*[-]\s*(\d{4}|present|current)/i\<close> (with the en dash beside the hyphen in the
  source), the bullet test \<open>/^[\s]*[-*]/\<close> and the bullet prefix \<open>/^[\s]*[-*]\s*/\<close> that
  \<open>replace\<close> removes (with the bullet U+2022 in both classes in the source). These code
  units are outside the modelled ones and are left out of the classes.
\<close>

definition jobTitle_re :: regex where
  "jobTitle_re =
     Cat (Or Bol (Chr isWhiteSpace))
       (Grp 1 (alts (map lit
          [''software engineer'', ''developer'', ''manager'', ''analyst'', ''architect'', ''lead'',
           ''director'', ''designer'', ''product'', ''business'', ''data scientist'', ''ml engineer'',
           ''qa engineer''])))"

definition company_re :: regex where
  "company_re =
     Cat (alts [lit ''at'', lit ''@'', lit '','']) (Cat (Rep isWhiteSpace 1 None)
         (Grp 1 (Rep ((\<lambda>c. isLetter c \<or> isDigit c \<or> c = CHR ''&'' \<or> isWhiteSpace c \<or> c = CHR ''.''))
                   2 (Some 50))))"

definition duration_re :: regex where
  "duration_re =
     Cat (Grp 1 (Rep isDigit 4 (Some 4)))
    (Cat (Rep isWhiteSpace 0 None) (Cat (Chr (\<lambda>c. c = CHR ''-'')) (Cat (Rep isWhiteSpace 0 None)
         (Grp 2 (alts [Rep isDigit 4 (Some 4), lit ''present'', lit ''current''])))))"

definition bullet_re :: regex where
  "bullet_re = Cat Bol (Cat (Rep isWhiteSpace 0 None) (Chr (\<lambda>c. c = CHR ''-'' \<or> c = CHR ''*'')))"

definition bullet_strip_re :: regex where
  "bullet_strip_re = Cat bullet_re (Rep isWhiteSpace 0 None)"

text \<open>
  \<open>new Date().getFullYear()\<close> is a parameter, \<open>currentYear\<close>. The argument of
  \<open>calculateYearsInRole\<close> is the pair of groups of the duration match, if there is one.
\<close>

definition calculateYearsInRole :: "int \<Rightarrow> (string \<times> string) option \<Rightarrow> int" where
  "calculateYearsInRole currentYear durationMatch =
     (case durationMatch of
        None \<Rightarrow> 1
      | Some (m1, m2) \<Rightarrow>
          (let startYear = parseInt m1;
               endYear = (if toLowerCase m2 = ''present'' \<or> toLowerCase m2 = ''current''
                          then currentYear else parseInt m2)
           in max 1 (endYear - startYear)))"

definition experience_line ::
  "int \<Rightarrow> ExtractedExperience list \<times> ExtractedExperience option \<Rightarrow> string \<Rightarrow>
   ExtractedExperience list \<times> ExtractedExperience option" where
  "experience_line currentYear st line =
     (case st of (found, currentRole) \<Rightarrow>
        (let st' =
           (case str_match jobTitle_re line of
              Some (i, j, c) \<Rightarrow>
                (let found' = (case currentRole of Some r \<Rightarrow> found @ [r] | None \<Rightarrow> found);
                     companyMatch = str_match company_re line;
                     durationMatch = str_match duration_re line
                 in (found',
                     Some \<lparr>jobTitle = trim (captured line c 1),
                           company = (case companyMatch of
                                        Some (i2, j2, c2) \<Rightarrow> trim (captured line c2 1)
                                      | None \<Rightarrow> ''Unknown''),
                           duration = (case durationMatch of
                                         Some (di, dj, dc) \<Rightarrow> substring line di dj
                                       | None \<Rightarrow> ''Unknown''),
                           yearsInRole = calculateYearsInRole currentYear
                                           (case durationMatch of
                                              Some (di, dj, dc) \<Rightarrow> Some (captured line dc 1, captured line dc 2)
                                            | None \<Rightarrow> None),
                           responsibilities = [],
                           skills = []\<rparr>))
            | None \<Rightarrow> (found, currentRole))
         in case st' of
              (found', Some r) \<Rightarrow>
                (case str_match bullet_re line of
                   Some m \<Rightarrow>
                     (found',
                      Some (r\<lparr>responsibilities := responsibilities r @
                               [trim (case str_match bullet_strip_re line of
                                        Some (bi, bj, bc) \<Rightarrow> take bi line @ drop bj line
                                      | None \<Rightarrow> line)]\<rparr>))
                 | None \<Rightarrow> (found', Some r))
            | (found', None) \<Rightarrow> (found', None)))"

definition extractExperience :: "int \<Rightarrow> string \<Rightarrow> ExtractedExperience list" where
  "extractExperience currentYear resumeText =
     (case foldl (experience_line currentYear) ([], None) (split_lines resumeText) of
        (found, Some r) \<Rightarrow> found @ [r]
      | (found, None) \<Rightarrow> found)"

subsection \<open>parseResume\<close>

definition calculateYearsExperience :: "ExtractedExperience list \<Rightarrow> real" where
  "calculateYearsExperience found =
     Math_round (foldl (\<lambda>total e. total + real_of_int (yearsInRole e)) 0 found * 10) / 10"

definition calculateExtractionScore ::
  "ExtractedSkill list \<Rightarrow> ExtractedEducation list \<Rightarrow> ExtractedExperience list \<Rightarrow> real" where
  "calculateExtractionScore sk ed ex =
     (let score = 0.5;
          score = (if length sk > 5 then score + 0.2 else score);
          score = (if length ed > 0 then score + 0.15 else score);
          score = (if length ex > 0 then score + 0.15 else score)
      in min 1 score)"

text \<open>
  The embedding: the words are the matches of \<open>/\b\w+\b/g\<close> in the lower-cased text; the
  hash is computed in 32-bit integers (\<open>hash & hash\<close> truncates), and \<open>Math.abs(hash) % 768\<close>
  is the bucket.
\<close>

definition word_re :: regex where
  "word_re = Cat Wordb (Cat (Rep isWordChar 1 None) Wordb)"

fun match_all :: "nat \<Rightarrow> regex \<Rightarrow> string \<Rightarrow> nat \<Rightarrow> string list" where
  "match_all 0 re s lastIndex = []"
| "match_all (Suc n) re s lastIndex =
     (case exec_from re s lastIndex of
        None \<Rightarrow> []
      | Some (b, e, c) \<Rightarrow> substring s b e # match_all n re s (if e = b then Suc e else e))"

definition hash_step :: "32 word \<Rightarrow> char \<Rightarrow> 32 word" where
  "hash_step hash ch = (push_bit 5 hash - hash) + of_nat (of_char ch)"

definition bucket :: "string \<Rightarrow> nat" where
  "bucket w = nat (\<bar>sint (foldl hash_step 0 w)\<bar> mod 768)"

definition generateSimpleEmbeddings :: "string \<Rightarrow> real list" where
  "generateSimpleEmbeddings resumeText =
     (let t = toLowerCase resumeText;
          ws = match_all (Suc (length t)) word_re t 0;
          embedding = foldl (\<lambda>emb w. emb[bucket w := emb ! bucket w + 1 / real (length ws)])
                        (replicate 768 0) ws;
          norm = sqrt (foldl (\<lambda>sum val. sum + val * val) 0 embedding)
      in if norm > 0 then map (\<lambda>val. val / norm) embedding else embedding)"

text \<open>
  \<open>Number_toString\<close> is the decimal text of a number, for the non-negative multiples of
  1/10 that \<open>calculateYearsExperience\<close> returns.
\<close>

fun digits_of :: "nat \<Rightarrow> string" where
  "digits_of n = (if n < 10 then [char_of (48 + n)] else digits_of (n div 10) @ [char_of (48 + n mod 10)])"

definition Number_toString :: "real \<Rightarrow> string" where
  "Number_toString x =
     (let k = nat \<lfloor>x * 10\<rfloor>
      in digits_of (k div 10) @ (if k mod 10 = 0 then [] else ''.'' @ digits_of (k mod 10)))"

fun join_comma :: "string list \<Rightarrow> string" where
  "join_comma [] = []"
| "join_comma [x] = x"
| "join_comma (x # xs) = x @ '', '' @ join_comma xs"

definition generateSummary :: "ExtractedSkill list \<Rightarrow> ExtractedExperience list \<Rightarrow> real \<Rightarrow> string" where
  "generateSummary sk ex yearsExperience =
     (let topSkills = join_comma (map skill (take 5 sk));
          latestRole = (case ex of
                          e # es \<Rightarrow> if jobTitle e = [] then ''Professional'' else jobTitle e
                        | [] \<Rightarrow> ''Professional'')
      in Number_toString yearsExperience @ '' years of experience as '' @ latestRole
           @ '' with expertise in '' @ topSkills @ ''.'')"

text \<open>
  \<open>parseResume\<close> takes the current year and the \<open>lastIndex\<close> values of the module, and
  returns its result, a thrown error or the parsed resume, with the new \<open>lastIndex\<close>
  values. An error thrown by \<open>extractSkills\<close> leaves the function before the education
  patterns are touched.
\<close>

definition parseResume :: "int \<Rightarrow> nat list \<Rightarrow> string \<Rightarrow> (js_error + ParsedResume) \<times> nat list" where
  "parseResume currentYear lastIndexes resumeText =
     (case extractSkills resumeText of
        Inl e \<Rightarrow> (Inl e, lastIndexes)
      | Inr sk \<Rightarrow>
          (case extractEducation lastIndexes resumeText of
             (ed, lastIndexes') \<Rightarrow>
               (let ex = extractExperience currentYear resumeText;
                    total = calculateYearsExperience ex;
                    score = calculateExtractionScore sk ed ex;
                    emb = generateSimpleEmbeddings resumeText;
                    summ = generateSummary sk ex total
                in (Inr \<lparr>skills = sk, education = ed, experience = ex,
                          totalYearsExperience = total, summary = summ,
                          embeddings = emb, extractionScore = score\<rparr>,
                    lastIndexes'))))"

section \<open>Evaluation of the character classes\<close>

text \<open>
  The character classes are defined by code-unit ranges. For evaluation on concrete texts
  each gets an equation on the bits of the code unit, proved from its definition.
\<close>

lemma toLowerChar_code [code]:
  "toLowerChar (Char b0 b1 b2 b3 b4 b5 b6 b7) =
     (if b6 \<and> \<not> b5 \<and>
         ((\<not> b7 \<and> (b0 \<or> b1 \<or> b2 \<or> b3 \<or> b4) \<and> \<not> (b4 \<and> b3 \<and> (b2 \<or> (b1 \<and> b0))))
          \<or> (b7 \<and> \<not> (b4 \<and> \<not> b3 \<and> b2 \<and> b1 \<and> b0) \<and> \<not> (b4 \<and> b3 \<and> b2 \<and> b1 \<and> b0)))
      then Char b0 b1 b2 b3 b4 True b6 b7
      else Char b0 b1 b2 b3 b4 b5 b6 b7)"
  unfolding toLowerChar_def Let_def
  by (cases b0; cases b1; cases b2; cases b3; cases b4; cases b5; cases b6; cases b7;
      simp add: char_of_eq_iff)

lemma isWhiteSpace_code [code]:
  "isWhiteSpace (Char b0 b1 b2 b3 b4 b5 b6 b7) =
     (\<not> b6 \<and> \<not> b4 \<and>
      ((\<not> b7 \<and> \<not> b5 \<and> b3 \<and> (b0 \<or> b1 \<or> b2) \<and> \<not> (b2 \<and> b1))
       \<or> (b5 \<and> \<not> b3 \<and> \<not> b2 \<and> \<not> b1 \<and> \<not> b0)))"
  unfolding isWhiteSpace_def
  by (cases b0; cases b1; cases b2; cases b3; cases b4; cases b5; cases b6; cases b7; simp)

lemma isDigit_code [code]:
  "isDigit (Char b0 b1 b2 b3 b4 b5 b6 b7) =
     (\<not> b7 \<and> \<not> b6 \<and> b5 \<and> b4 \<and> (\<not> b3 \<or> (\<not> b2 \<and> \<not> b1)))"
  unfolding isDigit_def Let_def
  by (cases b0; cases b1; cases b2; cases b3; cases b4; cases b5; cases b6; cases b7; simp)

lemma isLetter_code [code]:
  "isLetter (Char b0 b1 b2 b3 b4 b5 b6 b7) =
     (\<not> b7 \<and> b6 \<and> (b0 \<or> b1 \<or> b2 \<or> b3 \<or> b4) \<and> \<not> (b4 \<and> b3 \<and> (b2 \<or> (b1 \<and> b0))))"
  unfolding isLetter_def Let_def
  by (cases b0; cases b1; cases b2; cases b3; cases b4; cases b5; cases b6; cases b7; simp)

lemma isWordChar_code [code]:
  "isWordChar (Char b0 b1 b2 b3 b4 b5 b6 b7) =
     (\<not> b7 \<and>
      ((\<not> b6 \<and> b5 \<and> b4 \<and> (\<not> b3 \<or> (\<not> b2 \<and> \<not> b1)))
       \<or> (b6 \<and> (b0 \<or> b1 \<or> b2 \<or> b3 \<or> b4) \<and> \<not> (b4 \<and> b3 \<and> (b2 \<or> (b1 \<and> b0))))
       \<or> (b6 \<and> \<not> b5 \<and> b4 \<and> b3 \<and> b2 \<and> b1 \<and> b0)))"
  unfolding isWordChar_def Let_def
  by (cases b0; cases b1; cases b2; cases b3; cases b4; cases b5; cases b6; cases b7; simp)

lemma isLineTerminator_code [code]:
  "isLineTerminator (Char b0 b1 b2 b3 b4 b5 b6 b7) =
     (\<not> b7 \<and> \<not> b6 \<and> \<not> b5 \<and> \<not> b4 \<and> b3
      \<and> ((b1 \<and> \<not> b0 \<and> \<not> b2) \<or> (\<not> b1 \<and> b0 \<and> b2)))"
  unfolding isLineTerminator_def
  by (cases b0; cases b1; cases b2; cases b3; cases b4; cases b5; cases b6; cases b7; simp)

section \<open>Sorting\<close>

lemma set_insert_by: "set (insert_by cmp x ys) = insert x (set ys)"
  by (induction ys) auto

lemma length_insert_by: "length (insert_by cmp x ys) = Suc (length ys)"
  by (induction ys) auto

lemma mset_insert_by: "mset (insert_by cmp x ys) = add_mset x (mset ys)"
  by (induction ys) auto

lemma set_js_sort: "set (js_sort cmp xs) = set xs"
  by (induction xs) (auto simp: js_sort_def set_insert_by)

lemma length_js_sort: "length (js_sort cmp xs) = length xs"
  by (induction xs) (auto simp: js_sort_def length_insert_by)

lemma mset_js_sort: "mset (js_sort cmp xs) = mset xs"
  by (induction xs) (auto simp: js_sort_def mset_insert_by)

lemma sorted_insert_by_key:
  "sorted_wrt (\<lambda>a b. key b \<le> key a) ys \<Longrightarrow>
   sorted_wrt (\<lambda>a b. key b \<le> key a) (insert_by (\<lambda>a b. key b - key a) x ys)"
  by (induction ys) (auto simp: set_insert_by)

lemma sorted_js_sort_key:
  "sorted_wrt (\<lambda>a b. key b \<le> key a) (js_sort (\<lambda>a b. key b - (key a :: real)) xs)"
  by (induction xs) (auto simp: js_sort_def sorted_insert_by_key)

lemma filter_insert_by_const:
  "\<forall>y\<in>set ys. P y \<longrightarrow> key y = k \<Longrightarrow> P x \<Longrightarrow> key x = k \<Longrightarrow> sorted_wrt (\<lambda>a b. key b \<le> key a) ys \<Longrightarrow>
   filter P (insert_by (\<lambda>a b. key b - (key a::real)) x ys) = x # filter P ys"
  by (induction ys) (auto)

lemma filter_insert_by_not:
  "\<not> P x \<Longrightarrow> filter P (insert_by cmp x ys) = filter P ys"
  by (induction ys) (auto)

lemma filter_js_sort_key:
  "\<forall>y\<in>set xs. P y \<longrightarrow> key y = k \<Longrightarrow>
   filter P (js_sort (\<lambda>a b. key b - (key a :: real)) xs) = filter P xs"
proof (induction xs)
  case Nil
  then show ?case by (simp add: js_sort_def)
next
  case (Cons x xs)
  have s: "js_sort (\<lambda>a b. key b - key a) (x # xs) = insert_by (\<lambda>a b. key b - key a) x (js_sort (\<lambda>a b. key b - key a) xs)"
    by (simp add: js_sort_def)
  show ?case
  proof (cases "P x")
    case True
    with Cons show ?thesis unfolding s
      by (subst filter_insert_by_const[where k=k]) (auto simp: set_js_sort sorted_js_sort_key)
  next
    case False
    with Cons show ?thesis unfolding s by (simp add: filter_insert_by_not)
  qed
qed

section \<open>The best match of one competency\<close>

lemma match_step_pair:
  "match_step r (bm, bs) x =
     (if calculateSimilarity r (skill x) > bs \<and> calculateSimilarity r (skill x) > 0.5
      then (Some \<lparr>competency = r, extractedSkill = skill x,
                  confidenceScore = calculateSimilarity r (skill x) * confidence x,
                  proficiencyLevel = inferProficiencyLevel (skill x), gap = False\<rparr>,
            calculateSimilarity r (skill x))
      else (bm, bs))"
  by (simp add: match_step_def Let_def)

lemma foldl_match_step_None:
  "fst (foldl (match_step r) (bm, bs) xs) = None \<longleftrightarrow>
     bm = None \<and> (\<forall>s\<in>set xs. \<not> (calculateSimilarity r (skill s) > bs \<and> calculateSimilarity r (skill s) > 0.5))"
proof (induction xs arbitrary: bm bs)
  case Nil
  then show ?case by simp
next
  case (Cons x xs)
  show ?case
    by (simp add: Cons.IH match_step_pair) 
qed

lemma foldl_match_step_keep:
  "\<forall>s\<in>set xs. calculateSimilarity r (skill s) \<le> bs \<Longrightarrow>
   foldl (match_step r) (bm, bs) xs = (bm, bs)"
  by (induction xs) (auto simp: match_step_pair)

lemma foldl_match_step_Some:
  "fst (foldl (match_step r) (bm, bs) xs) = Some m \<Longrightarrow>
   bm = Some m \<or> (competency m = r \<and> \<not> gap m \<and>
      (\<exists>s\<in>set xs. extractedSkill m = skill s \<and> calculateSimilarity r (skill s) > 0.5 \<and>
          confidenceScore m = calculateSimilarity r (skill s) * confidence s))"
proof (induction xs arbitrary: bm bs)
  case Nil
  then show ?case by simp
next
  case (Cons x xs)
  show ?case
  proof (cases "calculateSimilarity r (skill x) > bs \<and> calculateSimilarity r (skill x) > 0.5")
    case True
    with Cons.prems have "fst (foldl (match_step r) (Some \<lparr>competency = r, extractedSkill = skill x,
                  confidenceScore = calculateSimilarity r (skill x) * confidence x,
                  proficiencyLevel = inferProficiencyLevel (skill x), gap = False\<rparr>,
            calculateSimilarity r (skill x)) xs) = Some m"
      by (auto simp: match_step_pair split: if_splits)
    from Cons.IH[OF this] True show ?thesis by auto
  next
    case False
    with Cons.prems have "fst (foldl (match_step r) (bm, bs) xs) = Some m"
      by (auto simp: match_step_pair split: if_splits)
    from Cons.IH[OF this] show ?thesis by auto
  qed
qed

lemma match_one_gap:
  "gap (match_one sk r) \<longleftrightarrow> (\<forall>s\<in>set sk. \<not> calculateSimilarity r (skill s) > 0.5)"
proof (cases "fst (foldl (match_step r) (None, 0) sk)")
  case None
  then show ?thesis
    using foldl_match_step_None[of r None 0 sk] by (auto simp: match_one_def)
next
  case (Some m)
  then show ?thesis
    using foldl_match_step_None[of r None 0 sk] foldl_match_step_Some[OF Some]
    by (auto simp: match_one_def)
qed

lemma match_one_competency: "competency (match_one sk r) = r"
proof (cases "fst (foldl (match_step r) (None, 0) sk)")
  case None
  then show ?thesis by (simp add: match_one_def)
next
  case (Some m)
  then show ?thesis
    using foldl_match_step_Some[OF Some] by (auto simp: match_one_def)
qed

lemma match_one_gap_entry:
  "gap (match_one sk r) \<Longrightarrow>
   match_one sk r = \<lparr>competency = r, extractedSkill = [], confidenceScore = 0,
                     proficiencyLevel = Beginner, gap = True\<rparr>"
proof (cases "fst (foldl (match_step r) (None, 0) sk)")
  case None
  then show ?thesis by (simp add: match_one_def)
next
  case (Some m)
  assume "gap (match_one sk r)"
  then show ?thesis
    using foldl_match_step_Some[OF Some] Some by (auto simp: match_one_def)
qed


lemma competencyMatches_scoreCompetencies:
  "competencyMatches (scoreCompetencies sk rq txt) = matchCompetencies sk rq"
  by (simp add: scoreCompetencies_def Let_def)

lemma skillGaps_scoreCompetencies:
  "skillGaps (scoreCompetencies sk rq txt) = map competency (filter gap (matchCompetencies sk rq))"
  by (simp add: scoreCompetencies_def Let_def identifySkillGaps_def)

lemma gaps_in_order:
  "map competency (filter gap (matchCompetencies sk rq)) =
   filter (\<lambda>c. \<forall>s\<in>set sk. \<not> calculateSimilarity c (skill s) > 0.5) rq"
proof -
  have "filter gap (matchCompetencies sk rq) = filter gap (map (match_one sk) rq)"
    unfolding matchCompetencies_def
    by (rule filter_js_sort_key[where k = 0]) (auto dest: match_one_gap_entry)
  then show ?thesis
    by (simp add: filter_map comp_def match_one_gap match_one_competency)
qed

lemma culturalFitIndex_scoreCompetencies:
  "culturalFitIndex (scoreCompetencies sk rq resumeText) = assessCulturalFit resumeText sk"
  by (simp add: scoreCompetencies_def Let_def)

section \<open>Ranges of the scores\<close>

lemma calculateSimilarity_le_1: "calculateSimilarity a b \<le> 1"
  by (simp add: calculateSimilarity_def Let_def)






lemma assessCulturalFit_range: "50 \<le> assessCulturalFit txt sk \<and> assessCulturalFit txt sk \<le> 98"
  unfolding assessCulturalFit_def Let_def by (simp add: min_def)


section \<open>The code computes the Levenshtein distance\<close>

lemma lev_prefix_0_right [simp]: "lev_prefix a b i 0 = i"
  by (cases i) auto

lemmas lev_prefix_Suc = lev_prefix.simps(3)

declare lev_prefix.simps(3) [simp del]

lemma lev_prefix_right_le: "lev_prefix a b i (Suc j) \<le> lev_prefix a b i j + 1"
  by (cases i) (auto simp: lev_prefix_Suc)

lemma lev_prefix_down_le: "lev_prefix a b (Suc i) j \<le> lev_prefix a b i j + 1"
  by (cases j) (auto simp: lev_prefix_Suc)

lemma lev_prefix_up_le: "lev_prefix a b i j \<le> lev_prefix a b (Suc i) j + 1"
proof (induction j)
  case 0
  then show ?case by simp
next
  case (Suc j)
  have "lev_prefix a b i (Suc j) \<le> lev_prefix a b i j + 1"
    by (rule lev_prefix_right_le)
  with Suc show ?case by (simp add: lev_prefix_Suc min_def)
qed

lemma lev_prefix_left_le: "lev_prefix a b i j \<le> lev_prefix a b i (Suc j) + 1"
proof (induction i)
  case 0
  then show ?case by simp
next
  case (Suc i)
  have "lev_prefix a b (Suc i) j \<le> lev_prefix a b i j + 1"
    by (rule lev_prefix_down_le)
  with Suc show ?case by (simp add: lev_prefix_Suc min_def)
qed

lemma lev_prefix_match:
  "a ! i = b ! j \<Longrightarrow> lev_prefix a b (Suc i) (Suc j) = lev_prefix a b i j"
  using lev_prefix_up_le[of a b i j] lev_prefix_left_le[of a b i j]
    lev_prefix_right_le[of a b i j] lev_prefix_down_le[of a b i j]
    lev_prefix_left_le[of a b "Suc i" j] lev_prefix_up_le[of a b i "Suc j"]
  by (simp add: lev_prefix_Suc min_def)

lemma lev_prefix_le_max: "lev_prefix a b i j \<le> max i j"
  by (induction a b i j rule: lev_prefix.induct) (auto simp: lev_prefix_Suc min_def max_def)

lemma lev_prefix_sym: "lev_prefix a b i j = lev_prefix b a j i"
  by (induction a b i j rule: lev_prefix.induct) (auto simp: lev_prefix_Suc min_def)

lemma levenshtein_sym: "levenshtein a b = levenshtein b a"
  by (simp add: levenshtein_def lev_prefix_sym[of a b])

lemma levenshtein_le: "levenshtein a b \<le> max (length a) (length b)"
  by (simp add: levenshtein_def lev_prefix_le_max)

lemma str_includes_sublist: "str_includes s t \<longleftrightarrow> sublist t s"
  by (induction s) (auto simp: sublist_Cons_right)

text \<open>
  Row 0 of \<open>getEditDistance\<close> is \<open>[0, 1, \<dots>, length s2]\<close>. While row \<open>i > 0\<close> runs, the cells
  left of \<open>j - 1\<close> already hold row \<open>i\<close> of the table, the cells from \<open>j - 1\<close> on still
  hold row \<open>i - 1\<close>, and \<open>lastValue\<close> is the cell \<open>(i, j - 1)\<close>.
\<close>

lemma edit_cell_row0: "foldl (edit_cell s1 s2 0) (cs, l) [0..<k] = (cs @ [0..<k], l)"
  by (induction k) (auto simp: edit_cell_def)

lemma edit_row_0: "edit_row s1 s2 [] 0 = [0..<Suc (length s2)]"
  unfolding edit_row_def edit_cell_row0 by simp

lemma edit_cell_inv:
  assumes "0 < i" and "length c0 = Suc n"
    and "\<forall>q\<le>n. c0 ! q = lev_prefix s1 s2 (i - 1) q"
    and "k \<le> Suc n"
  shows "case foldl (edit_cell s1 s2 i) (c0, i) [0..<k] of (costs, lastValue) \<Rightarrow>
           length costs = Suc n
         \<and> (\<forall>q. q < k - 1 \<longrightarrow> costs ! q = lev_prefix s1 s2 i q)
         \<and> (\<forall>q. k - 1 \<le> q \<and> q \<le> n \<longrightarrow> costs ! q = lev_prefix s1 s2 (i - 1) q)
         \<and> lastValue = lev_prefix s1 s2 i (k - 1)"
  using assms(4)
proof (induction k)
  case 0
  then show ?case using assms(1-3) by simp
next
  case (Suc k)
  obtain costs lastValue where st: "foldl (edit_cell s1 s2 i) (c0, i) [0..<k] = (costs, lastValue)"
    by (cases "foldl (edit_cell s1 s2 i) (c0, i) [0..<k]")
  from Suc have k: "k \<le> n" by simp
  from Suc.IH st k have inv: "length costs = Suc n"
    "\<forall>q. q < k - 1 \<longrightarrow> costs ! q = lev_prefix s1 s2 i q"
    "\<forall>q. k - 1 \<le> q \<and> q \<le> n \<longrightarrow> costs ! q = lev_prefix s1 s2 (i - 1) q"
    "lastValue = lev_prefix s1 s2 i (k - 1)"
    by auto
  obtain i' where i': "i = Suc i'" using assms(1) by (cases i) auto
  show ?case
  proof (cases k)
    case 0
    then show ?thesis using st inv assms(1) by (simp add: edit_cell_def)
  next
    case (Suc k')
    have a: "costs ! k' = lev_prefix s1 s2 i' k'" using inv(3) Suc k i' by simp
    have b: "costs ! Suc k' = lev_prefix s1 s2 i' (Suc k')" using inv(3) Suc k i' by simp
    have l: "lastValue = lev_prefix s1 s2 (Suc i') k'" using inv(4) Suc i' by simp
    have new: "(if s1 ! i' \<noteq> s2 ! k'
                then min (min (costs ! k') lastValue) (costs ! Suc k') + 1
                else costs ! k') = lev_prefix s1 s2 (Suc i') (Suc k')"
    proof (cases "s1 ! i' = s2 ! k'")
      case True
      have m: "lev_prefix s1 s2 (Suc i') (Suc k') = lev_prefix s1 s2 i' k'"
        by (rule lev_prefix_match[OF True])
      show ?thesis unfolding m using True a by simp
    next
      case False
      then show ?thesis using a b l Suc by (simp add: lev_prefix_Suc min_def)
    qed
    have step: "edit_cell s1 s2 i (costs, lastValue) k =
        (costs[k' := lastValue], lev_prefix s1 s2 (Suc i') (Suc k'))"
      using new by (auto simp: edit_cell_def i' Suc Let_def split: if_splits)
    have 1: "\<forall>q. q < k \<longrightarrow> costs[k' := lastValue] ! q = lev_prefix s1 s2 i q"
    proof (intro allI impI)
      fix q assume "q < k"
      then consider "q < k'" | "q = k'" using Suc by linarith
      then show "costs[k' := lastValue] ! q = lev_prefix s1 s2 i q"
      proof cases
        case 1
        then show ?thesis using inv(2) Suc by simp
      next
        case 2
        then show ?thesis using l i' inv(1) k Suc by simp
      qed
    qed
    have 2: "\<forall>q. k \<le> q \<and> q \<le> n \<longrightarrow> costs[k' := lastValue] ! q = lev_prefix s1 s2 (i - 1) q"
      using inv(3) Suc by simp
    show ?thesis
      using st step 1 2 inv(1) i' Suc by simp
  qed
qed

lemma edit_row_Suc:
  assumes "0 < i" and "length c0 = Suc (length s2)"
    and "\<forall>q\<le>length s2. c0 ! q = lev_prefix s1 s2 (i - 1) q"
  shows "length (edit_row s1 s2 c0 i) = Suc (length s2)
       \<and> (\<forall>q\<le>length s2. edit_row s1 s2 c0 i ! q = lev_prefix s1 s2 i q)"
proof -
  obtain costs lastValue where
    st: "foldl (edit_cell s1 s2 i) (c0, i) [0..<Suc (length s2)] = (costs, lastValue)"
    by (cases "foldl (edit_cell s1 s2 i) (c0, i) [0..<Suc (length s2)]")
  from edit_cell_inv[OF assms, of "Suc (length s2)"] st
  have inv: "length costs = Suc (length s2)"
    "\<forall>q. q < length s2 \<longrightarrow> costs ! q = lev_prefix s1 s2 i q"
    "lastValue = lev_prefix s1 s2 i (length s2)"
    by auto
  have r: "edit_row s1 s2 c0 i = costs[length s2 := lastValue]"
    using assms(1) st by (simp add: edit_row_def)
  show ?thesis
    unfolding r using inv by (auto simp: nth_list_update)
qed

lemma edit_rows:
  "length (foldl (edit_row s1 s2) [] [0..<Suc m]) = Suc (length s2)
   \<and> (\<forall>q\<le>length s2. foldl (edit_row s1 s2) [] [0..<Suc m] ! q = lev_prefix s1 s2 m q)"
proof (induction m)
  case 0
  have "[0..<Suc 0] = [0]" by simp
  then have "foldl (edit_row s1 s2) [] [0..<Suc 0] = [0..<Suc (length s2)]"
    by (simp only: foldl_Cons foldl_Nil edit_row_0)
  moreover have "\<forall>q\<le>length s2. [0..<Suc (length s2)] ! q = q"
    using nth_upt[of 0 _ "Suc (length s2)"] by (simp del: upt_Suc)
  ultimately show ?case by (simp del: upt_Suc)
next
  case (Suc m)
  have "foldl (edit_row s1 s2) [] [0..<Suc (Suc m)] =
        edit_row s1 s2 (foldl (edit_row s1 s2) [] [0..<Suc m]) (Suc m)"
    by simp
  then show ?case
    using edit_row_Suc[of "Suc m" "foldl (edit_row s1 s2) [] [0..<Suc m]" s2 s1] Suc
    by simp
qed

lemma getEditDistance_levenshtein: "getEditDistance s1 s2 = levenshtein s1 s2"
  using edit_rows[of s1 s2 "length s1"] by (simp add: getEditDistance_def levenshtein_def)

lemma calculateSimilarity_rules:
  "calculateSimilarity a b =
     (let s1 = trim (toLowerCase a); s2 = trim (toLowerCase b)
      in if s1 = s2 then 1
         else if sublist s2 s1 \<or> sublist s1 s2 then 0.85
         else 1 - real (levenshtein s1 s2) / real (max (length s1) (length s2)))"
proof -
  define s1 where "s1 = trim (toLowerCase a)"
  define s2 where "s2 = trim (toLowerCase b)"
  have sym: "levenshtein s2 s1 = levenshtein s1 s2" by (rule levenshtein_sym)
  have "s1 \<noteq> s2 \<Longrightarrow> length s1 \<le> length s2 \<Longrightarrow> length s2 \<noteq> 0"
    by auto
  then show ?thesis
    unfolding calculateSimilarity_def Let_def str_includes_sublist getEditDistance_levenshtein
      s1_def[symmetric] s2_def[symmetric]
    by (auto simp: sym max_def)
qed

lemma ratio_le_1: "d \<le> m \<Longrightarrow> real d / real m \<le> 1"
  by (cases "m = 0") (simp_all add: divide_le_eq_1)

lemma calculateSimilarity_nonneg: "0 \<le> calculateSimilarity a b"
proof -
  define s1 where "s1 = trim (toLowerCase a)"
  define s2 where "s2 = trim (toLowerCase b)"
  have "real (levenshtein s1 s2) / real (max (length s1) (length s2)) \<le> 1"
    by (rule ratio_le_1[OF levenshtein_le])
  then show ?thesis
    unfolding calculateSimilarity_rules Let_def s1_def[symmetric] s2_def[symmetric]
    by simp
qed

section \<open>A competency that is blank after normalisation\<close>

lemma str_includes_Nil: "str_includes s []"
  by (cases s) auto

lemma calculateSimilarity_blank:
  "trim (toLowerCase c) = [] \<Longrightarrow>
   calculateSimilarity c b = (if trim (toLowerCase b) = [] then 1 else 0.85)"
  by (simp add: calculateSimilarity_def Let_def str_includes_Nil)

lemma find_first:
  "\<forall>s\<in>set pre. \<not> P s \<Longrightarrow> P y \<Longrightarrow> find P (pre @ y # post) = Some y"
  by (induction pre) auto

lemma foldl_match_step_first:
  assumes "calculateSimilarity r (skill x) = 0.85"
    and "\<forall>s\<in>set xs. calculateSimilarity r (skill s) = 0.85"
  shows "foldl (match_step r) (None, 0) (x # xs) =
     (Some \<lparr>competency = r, extractedSkill = skill x,
             confidenceScore = 0.85 * confidence x,
             proficiencyLevel = inferProficiencyLevel (skill x), gap = False\<rparr>, 0.85)"
proof -
  have step: "match_step r (None, 0) x =
     (Some \<lparr>competency = r, extractedSkill = skill x,
             confidenceScore = 0.85 * confidence x,
             proficiencyLevel = inferProficiencyLevel (skill x), gap = False\<rparr>, 0.85)"
    unfolding match_step_pair assms(1) by simp
  have le: "\<forall>s\<in>set xs. calculateSimilarity r (skill s) \<le> 0.85"
    using assms(2) by simp
  show ?thesis
    unfolding foldl_Cons step by (rule foldl_match_step_keep[OF le])
qed

lemma foldl_match_step_exact:
  assumes "\<forall>s\<in>set pre. calculateSimilarity r (skill s) = 0.85"
    and "calculateSimilarity r (skill y) = 1"
  shows "foldl (match_step r) (None, 0) (pre @ y # post) =
     (Some \<lparr>competency = r, extractedSkill = skill y,
             confidenceScore = confidence y,
             proficiencyLevel = inferProficiencyLevel (skill y), gap = False\<rparr>, 1)"
proof -
  have le: "\<forall>s\<in>set post. calculateSimilarity r (skill s) \<le> 1"
    by (simp add: calculateSimilarity_le_1)
  have "\<exists>bm bs. foldl (match_step r) (None, 0) pre = (bm, bs) \<and> bs < 1"
  proof (cases pre)
    case Nil
    then show ?thesis by simp
  next
    case (Cons p ps)
    have "foldl (match_step r) (None, 0) (p # ps) =
       (Some \<lparr>competency = r, extractedSkill = skill p,
               confidenceScore = 0.85 * confidence p,
               proficiencyLevel = inferProficiencyLevel (skill p), gap = False\<rparr>, 0.85)"
      using assms(1) unfolding Cons by (intro foldl_match_step_first) simp_all
    moreover have "(0.85 :: real) < 1" by simp
    ultimately show ?thesis unfolding Cons by blast
  qed
  then obtain bm bs where pre: "foldl (match_step r) (None, 0) pre = (bm, bs)" "bs < 1"
    by blast
  have step: "match_step r (bm, bs) y =
     (Some \<lparr>competency = r, extractedSkill = skill y,
             confidenceScore = confidence y,
             proficiencyLevel = inferProficiencyLevel (skill y), gap = False\<rparr>, 1)"
    unfolding match_step_pair assms(2) using pre(2) by simp
  show ?thesis
    unfolding foldl_append foldl_Cons pre(1) step by (rule foldl_match_step_keep[OF le])
qed

lemma match_one_blank:
  assumes "trim (toLowerCase c) = []" and "sk \<noteq> []"
  shows "\<not> gap (match_one sk c) \<and>
     (case find (\<lambda>s. trim (toLowerCase (skill s)) = []) sk of
        None \<Rightarrow> extractedSkill (match_one sk c) = skill (hd sk)
                \<and> confidenceScore (match_one sk c) = 0.85 * confidence (hd sk)
      | Some s \<Rightarrow> extractedSkill (match_one sk c) = skill s
                \<and> confidenceScore (match_one sk c) = confidence s)"
proof (cases "\<exists>s\<in>set sk. trim (toLowerCase (skill s)) = []")
  case True
  from split_list_first_prop[OF True] obtain pre y post where
    d: "sk = pre @ y # post" "trim (toLowerCase (skill y)) = []"
       "\<forall>s\<in>set pre. trim (toLowerCase (skill s)) \<noteq> []"
    by blast
  have f: "find (\<lambda>s. trim (toLowerCase (skill s)) = []) sk = Some y"
    unfolding d(1) using d(2,3) by (intro find_first) auto
  have "foldl (match_step c) (None, 0) sk =
     (Some \<lparr>competency = c, extractedSkill = skill y,
             confidenceScore = confidence y,
             proficiencyLevel = inferProficiencyLevel (skill y), gap = False\<rparr>, 1)"
    unfolding d(1) using d(2,3)
    by (intro foldl_match_step_exact) (simp_all add: calculateSimilarity_blank[OF assms(1)])
  then show ?thesis
    by (simp add: match_one_def f)
next
  case False
  then have n: "find (\<lambda>s. trim (toLowerCase (skill s)) = []) sk = None"
    by (simp add: find_None_iff)
  from assms(2) obtain x xs where sk: "sk = x # xs" by (cases sk) auto
  have "foldl (match_step c) (None, 0) sk =
     (Some \<lparr>competency = c, extractedSkill = skill (hd sk),
             confidenceScore = 0.85 * confidence (hd sk),
             proficiencyLevel = inferProficiencyLevel (skill (hd sk)), gap = False\<rparr>, 0.85)"
    using False unfolding sk list.sel
    by (intro foldl_match_step_first) (simp_all add: calculateSimilarity_blank[OF assms(1)])
  then show ?thesis
    by (simp add: match_one_def n)
qed

section \<open>The skill scan and the merge of its hits\<close>

text \<open>
  No keyword of the two vocabularies holds a pattern syntax character other than \<open>.\<close> and
  \<open>+\<close>, which \<open>parse_terms\<close> treats.
\<close>

lemma keywords_pattern_syntax:
  "list_all (\<lambda>kw. list_all (\<lambda>c. c \<notin> set (''^$*?()[]{}|'' @ [CHR 0x5C])) kw)
     (TECHNICAL_KEYWORDS @ SOFT_KEYWORDS)"
  by code_simp

lemma scan_keywords_error:
  "k \<in> set kws \<Longrightarrow> RegExp_keyword k = Inl SyntaxError \<Longrightarrow>
   scan_keywords kws conf cat t acc = Inl SyntaxError"
proof (induction kws arbitrary: acc)
  case Nil
  then show ?case by simp
next
  case (Cons kw kws)
  show ?case
  proof (cases "RegExp_keyword kw")
    case (Inl e)
    then show ?thesis by (cases e) simp
  next
    case (Inr re)
    with Cons.prems have "k \<in> set kws" by auto
    from Cons.IH[OF this Cons.prems(2)] Inr show ?thesis by simp
  qed
qed

lemma RegExp_keyword_cpp: "RegExp_keyword ''C++'' = Inl SyntaxError"
  by code_simp

lemma extractSkills_SyntaxError: "extractSkills resumeText = Inl SyntaxError"
proof -
  have "''C++'' \<in> set TECHNICAL_KEYWORDS"
    by (simp add: TECHNICAL_KEYWORDS_def)
  from scan_keywords_error[OF this RegExp_keyword_cpp]
  show ?thesis by (simp add: extractSkills_def Let_def)
qed

lemma parseResume_SyntaxError:
  "parseResume currentYear lastIndexes resumeText = (Inl SyntaxError, lastIndexes)"
  by (simp add: parseResume_def extractSkills_SyntaxError)

lemma map_of_Map_set: "map_of (Map_set m k v) = (map_of m)(k \<mapsto> v)"
  by (induction m k v rule: Map_set.induct) auto

lemma keys_Map_set:
  "map fst (Map_set m k v) = (if k \<in> fst ` set m then map fst m else map fst m @ [k])"
  by (induction m k v rule: Map_set.induct) auto

lemma distinct_Map_set: "distinct (map fst m) \<Longrightarrow> distinct (map fst (Map_set m k v))"
  by (simp add: keys_Map_set)

lemma find_append:
  "find P (xs @ ys) = (case find P xs of Some x \<Rightarrow> Some x | None \<Rightarrow> find P ys)"
  by (induction xs) auto

lemma Map_set_labelled:
  "\<forall>(k', v')\<in>set m. k' = f v' \<Longrightarrow> k = f v \<Longrightarrow> \<forall>(k', v')\<in>set (Map_set m k v). k' = f v'"
  by (induction m k v rule: Map_set.induct) auto

lemma foldl_Map_set_labelled:
  "\<forall>(k, v)\<in>set m. k = toLowerCase (skill v) \<Longrightarrow>
   \<forall>(k, v)\<in>set (foldl (\<lambda>m s. Map_set m (toLowerCase (skill s)) s) m hits). k = toLowerCase (skill v)"
proof (induction hits arbitrary: m)
  case Nil
  then show ?case by simp
next
  case (Cons h hits)
  have "\<forall>(k, v)\<in>set (Map_set m (toLowerCase (skill h)) h). k = toLowerCase (skill v)"
    using Cons.prems by (intro Map_set_labelled) auto
  from Cons.IH[OF this] show ?case by simp
qed

lemma foldl_Map_set_distinct:
  "distinct (map fst m) \<Longrightarrow>
   distinct (map fst (foldl (\<lambda>m s. Map_set m (toLowerCase (skill s)) s) m hits))"
  by (induction hits arbitrary: m) (auto simp: distinct_Map_set)

lemma foldl_Map_set_map_of:
  "map_of (foldl (\<lambda>m s. Map_set m (toLowerCase (skill s)) s) m hits) k =
     (case find (\<lambda>h. toLowerCase (skill h) = k) (rev hits) of
        Some h \<Rightarrow> Some h
      | None \<Rightarrow> map_of m k)"
proof (induction hits arbitrary: m)
  case Nil
  then show ?case by simp
next
  case (Cons h hits)
  show ?case
    by (simp add: Cons.IH map_of_Map_set find_append split: option.splits)
qed

lemma foldl_Map_set_keys:
  "set (map fst (foldl (\<lambda>m s. Map_set m (toLowerCase (skill s)) s) m hits)) =
     set (map fst m) \<union> (\<lambda>s. toLowerCase (skill s)) ` set hits"
proof (induction hits arbitrary: m)
  case Nil
  then show ?case by simp
next
  case (Cons h hits)
  have "set (map fst (Map_set m (toLowerCase (skill h)) h)) = insert (toLowerCase (skill h)) (set (map fst m))"
    unfolding keys_Map_set by auto
  then show ?case unfolding foldl_Cons Cons.IH by auto
qed

lemma uniqueSkills_labels:
  "map (\<lambda>s. toLowerCase (skill s)) (uniqueSkills hits) =
   map fst (foldl (\<lambda>m s. Map_set m (toLowerCase (skill s)) s) [] hits)"
  using foldl_Map_set_labelled[of "[]" hits]
  by (auto simp: uniqueSkills_def)

lemma uniqueSkills_distinct:
  "distinct (map (\<lambda>s. toLowerCase (skill s)) (uniqueSkills hits))"
  unfolding uniqueSkills_labels by (rule foldl_Map_set_distinct) simp

lemma uniqueSkills_label_set:
  "(\<lambda>s. toLowerCase (skill s)) ` set (uniqueSkills hits) = (\<lambda>s. toLowerCase (skill s)) ` set hits"
  using foldl_Map_set_keys[of "[]" hits] uniqueSkills_labels[of hits]
  by (metis (no_types, lifting) list.set_map list.simps(8) empty_set sup_bot_left)

lemma uniqueSkills_keeps_last:
  assumes "s \<in> set (uniqueSkills hits)"
  shows "find (\<lambda>h. toLowerCase (skill h) = toLowerCase (skill s)) (rev hits) = Some s"
proof -
  let ?M = "foldl (\<lambda>m s. Map_set m (toLowerCase (skill s)) s) [] hits"
  from assms obtain k where ks: "(k, s) \<in> set ?M"
    by (auto simp: uniqueSkills_def)
  with foldl_Map_set_labelled[of "[]" hits] have k: "k = toLowerCase (skill s)" by auto
  have "distinct (map fst ?M)" by (rule foldl_Map_set_distinct) simp
  with ks have "map_of ?M k = Some s" by simp
  then show ?thesis
    unfolding k foldl_Map_set_map_of by (simp split: option.splits)
qed

section \<open>The claims\<close>

subsection \<open>Competency scoring\<close>

text \<open>
  Claim C1. For every list of extracted skills, every list of required competencies and
  every resume text, \<open>scoreCompetencies\<close> returns exactly one match per required competency
  (the matches are as many as the competencies, and their competencies are the required
  ones, each as often as it is required); the matches are sorted by confidence score,
  descending; the gaps are exactly the required competencies against which no extracted
  skill has a similarity above 0.5, in the order of the requirements; and a match is a gap
  entry exactly when no skill scores above 0.5 against its competency, and then has the
  empty matched skill and confidence 0.
\<close>

theorem C1_matches_complete_sorted:
  "length (competencyMatches (scoreCompetencies sk rq resumeText)) = length rq
   \<and> mset (map competency (competencyMatches (scoreCompetencies sk rq resumeText))) = mset rq
   \<and> sorted_wrt (\<lambda>a b. confidenceScore b \<le> confidenceScore a)
        (competencyMatches (scoreCompetencies sk rq resumeText))
   \<and> skillGaps (scoreCompetencies sk rq resumeText) =
        filter (\<lambda>c. \<forall>s\<in>set sk. \<not> calculateSimilarity c (skill s) > 0.5) rq
   \<and> (\<forall>m\<in>set (competencyMatches (scoreCompetencies sk rq resumeText)).
        (gap m \<longleftrightarrow> (\<forall>s\<in>set sk. \<not> calculateSimilarity (competency m) (skill s) > 0.5))
        \<and> (gap m \<longrightarrow> extractedSkill m = [] \<and> confidenceScore m = 0))"
proof -
  have len: "length (matchCompetencies sk rq) = length rq"
    by (simp add: matchCompetencies_def length_js_sort)
  have ms: "mset (map competency (matchCompetencies sk rq)) = mset rq"
  proof -
    have "mset (map competency (matchCompetencies sk rq)) =
          image_mset competency (mset (map (match_one sk) rq))"
      by (simp add: matchCompetencies_def mset_js_sort)
    also have "\<dots> = mset (map (\<lambda>r. competency (match_one sk r)) rq)"
      by (simp add: comp_def multiset.map_comp)
    finally show ?thesis by (simp add: match_one_competency)
  qed
  have srt: "sorted_wrt (\<lambda>a b. confidenceScore b \<le> confidenceScore a) (matchCompetencies sk rq)"
    unfolding matchCompetencies_def by (rule sorted_js_sort_key)
  have each: "\<forall>m\<in>set (matchCompetencies sk rq).
        (gap m \<longleftrightarrow> (\<forall>s\<in>set sk. \<not> calculateSimilarity (competency m) (skill s) > 0.5))
        \<and> (gap m \<longrightarrow> extractedSkill m = [] \<and> confidenceScore m = 0)"
  proof
    fix m assume "m \<in> set (matchCompetencies sk rq)"
    then obtain r where m: "m = match_one sk r"
      by (auto simp: matchCompetencies_def set_js_sort)
    show "(gap m \<longleftrightarrow> (\<forall>s\<in>set sk. \<not> calculateSimilarity (competency m) (skill s) > 0.5))
        \<and> (gap m \<longrightarrow> extractedSkill m = [] \<and> confidenceScore m = 0)"
      unfolding m using match_one_gap[of sk r] match_one_gap_entry[of sk r]
      by (auto simp: match_one_competency)
  qed
  show ?thesis
    unfolding competencyMatches_scoreCompetencies skillGaps_scoreCompetencies
    using len ms srt each gaps_in_order[of sk rq] by simp
qed

text \<open>
  C1 at a concrete input: one skill, ``Docker'', against the competencies ``Kubernetes''
  (similarity 1/10, a gap) and ``docker '' (equal after normalisation).
\<close>

theorem C1_witness:
  "length (competencyMatches (scoreCompetencies
      [\<lparr>skill = ''Docker'', confidence = 0.9, category = ''technical''\<rparr>]
      [''Kubernetes'', ''docker ''] '''')) = 2
   \<and> skillGaps (scoreCompetencies
      [\<lparr>skill = ''Docker'', confidence = 0.9, category = ''technical''\<rparr>]
      [''Kubernetes'', ''docker ''] '''') = [''Kubernetes'']"
proof -
  have s1: "calculateSimilarity ''Kubernetes'' ''Docker'' = 1 / 10" by code_simp
  have s2: "calculateSimilarity ''docker '' ''Docker'' = 1" by code_simp
  show ?thesis
    using C1_matches_complete_sorted[of
        "[\<lparr>skill = ''Docker'', confidence = 0.9, category = ''technical''\<rparr>]"
        "[''Kubernetes'', ''docker '']" "''''"] s1 s2
    by simp
qed




text \<open>
  Claim C4. For all strings \<open>a\<close> and \<open>b\<close>, with \<open>s1\<close> and \<open>s2\<close> the two strings lower-cased and
  trimmed: the similarity is 1 when \<open>s1 = s2\<close>; otherwise 0.85 when one of them contains the
  other; otherwise 1 minus the Levenshtein distance of \<open>s1\<close> and \<open>s2\<close> divided by the length
  of the longer one. The value always lies in [0, 1].
\<close>

theorem C4_similarity_rules_range:
  "calculateSimilarity a b =
     (let s1 = trim (toLowerCase a); s2 = trim (toLowerCase b)
      in if s1 = s2 then 1
         else if sublist s2 s1 \<or> sublist s1 s2 then 0.85
         else 1 - real (levenshtein s1 s2) / real (max (length s1) (length s2)))
   \<and> 0 \<le> calculateSimilarity a b \<and> calculateSimilarity a b \<le> 1"
  using calculateSimilarity_rules[of a b] calculateSimilarity_nonneg[of a b]
    calculateSimilarity_le_1[of a b]
  by blast

theorem C4_witness:
  "calculateSimilarity ''Kubernetes'' ''Docker'' = 1 / 10
   \<and> 0 \<le> calculateSimilarity ''Kubernetes'' ''Docker''
   \<and> calculateSimilarity ''Kubernetes'' ''Docker'' \<le> 1"
proof -
  have "calculateSimilarity ''Kubernetes'' ''Docker'' = 1 / 10" by code_simp
  then show ?thesis
    using C4_similarity_rules_range[of "''Kubernetes''" "''Docker''"] by simp
qed

text \<open>
  Claim C8. For all strings \<open>a\<close> and \<open>b\<close>, the similarity of \<open>a\<close> and \<open>b\<close> is the similarity of
  \<open>b\<close> and \<open>a\<close>.
\<close>

theorem C8_similarity_symmetric: "calculateSimilarity a b = calculateSimilarity b a"
proof -
  have "levenshtein (trim (toLowerCase a)) (trim (toLowerCase b)) =
        levenshtein (trim (toLowerCase b)) (trim (toLowerCase a))"
    by (rule levenshtein_sym)
  then show ?thesis
    unfolding calculateSimilarity_rules[of a b] calculateSimilarity_rules[of b a] Let_def
    by (auto simp: max.commute)
qed

text \<open>
  Claim C9. For every resume text and every list of extracted skills, the cultural fit
  index that \<open>scoreCompetencies\<close> returns lies between 50 and 98: the score starts at 50,
  the four text bonuses add at most 10 + 10 + 5 + 8 and the soft-skill bonus at most 15,
  so the cap of 100 is never reached.
\<close>

theorem C9_culturalFit_range:
  "50 \<le> culturalFitIndex (scoreCompetencies extractedSkills requiredCompetencies resumeText)
   \<and> culturalFitIndex (scoreCompetencies extractedSkills requiredCompetencies resumeText) \<le> 98"
  unfolding culturalFitIndex_scoreCompetencies by (rule assessCulturalFit_range)

text \<open>
  Claim C10, amended. If a required competency is empty or white space only and the list
  of extracted skills is not empty, the competency is matched and never reported as a gap.
  When no skill label is itself empty or white space only, every similarity is 0.85 and
  the first extracted skill is selected, with confidence score 0.85 times its confidence.
  When some skill label is empty or white space only, its similarity is 1 (the normalised
  strings are equal), and the first such skill is selected, with its own confidence as
  the confidence score.
\<close>

theorem C10_blank_competency:
  assumes "trim (toLowerCase c) = []" and "c \<in> set rq" and "sk \<noteq> []"
  shows "c \<notin> set (skillGaps (scoreCompetencies sk rq resumeText))
     \<and> (\<exists>m\<in>set (competencyMatches (scoreCompetencies sk rq resumeText)). competency m = c)
     \<and> (\<forall>m\<in>set (competencyMatches (scoreCompetencies sk rq resumeText)).
          competency m = c \<longrightarrow>
            \<not> gap m \<and>
            (case find (\<lambda>s. trim (toLowerCase (skill s)) = []) sk of
               None \<Rightarrow> extractedSkill m = skill (hd sk)
                       \<and> confidenceScore m = 0.85 * confidence (hd sk)
             | Some s \<Rightarrow> extractedSkill m = skill s \<and> confidenceScore m = confidence s))"
proof -
  have set_ms: "set (matchCompetencies sk rq) = match_one sk ` set rq"
    by (simp add: matchCompetencies_def set_js_sort)
  have a: "c \<notin> set (map competency (filter gap (matchCompetencies sk rq)))"
    using match_one_blank[OF assms(1,3)] by (auto simp: set_ms match_one_competency)
  have b: "\<exists>m\<in>set (matchCompetencies sk rq). competency m = c"
    using assms(2) by (auto simp: set_ms match_one_competency)
  have d: "\<forall>m\<in>set (matchCompetencies sk rq). competency m = c \<longrightarrow>
            \<not> gap m \<and>
            (case find (\<lambda>s. trim (toLowerCase (skill s)) = []) sk of
               None \<Rightarrow> extractedSkill m = skill (hd sk)
                       \<and> confidenceScore m = 0.85 * confidence (hd sk)
             | Some s \<Rightarrow> extractedSkill m = skill s \<and> confidenceScore m = confidence s)"
    using match_one_blank[OF assms(1,3)] by (auto simp: set_ms match_one_competency)
  show ?thesis
    unfolding competencyMatches_scoreCompetencies skillGaps_scoreCompetencies
    using a b d by blast
qed

theorem C10_witness:
  "trim (toLowerCase '' '') = []
   \<and> '' '' \<notin> set (skillGaps (scoreCompetencies
        [\<lparr>skill = ''Python'', confidence = 0.9, category = ''technical''\<rparr>] ['' ''] []))"
proof -
  have h: "trim (toLowerCase '' '') = []" by code_simp
  from C10_blank_competency[OF h, of "['' '']"
      "[\<lparr>skill = ''Python'', confidence = 0.9, category = ''technical''\<rparr>]" "[]"]
  show ?thesis using h by simp
qed

text \<open>
  C10 as stated: with the skills ``Python'' (0.9) and a skill with the empty label (0.6),
  the blank competency is matched with the second skill, at confidence score 0.6.
\<close>

theorem C10_counterexample:
  "\<not> (\<forall>m\<in>set (competencyMatches (scoreCompetencies
        [\<lparr>skill = ''Python'', confidence = 0.9, category = ''technical''\<rparr>,
         \<lparr>skill = '''', confidence = 0.6, category = ''soft''\<rparr>] ['' ''] '''')).
        extractedSkill m = ''Python'' \<and> confidenceScore m = 0.85 * 0.9)"
  by code_simp

subsection \<open>Resume parsing\<close>

text \<open>
  Claim C3. \<open>parseResume\<close> and \<open>scoreCompetencies\<close> are deterministic; two successive calls of
  \<open>parseResume\<close> on the same text return equal values. The code at the text
  ``Bachelor of Science in Computer Science'': \<open>parseResume\<close> returns no value, it throws
  the \<open>SyntaxError\<close> of \<open>new RegExp('\\bc++\\b', 'gi')\<close>, as it does on every text; and its
  education stage is not a function of the text: run twice, the first run finds one
  record and leaves the first pattern's \<open>lastIndex\<close> at 8, and the second run, which starts
  there, finds none.
\<close>

theorem C3_parseResume_not_repeatable:
  "fst (parseResume 2026 [0, 0, 0, 0, 0] ''Bachelor of Science in Computer Science'') = Inl SyntaxError
   \<and> extractEducation [0, 0, 0, 0, 0] ''Bachelor of Science in Computer Science'' =
       ([\<lparr>degree = ''Bachelor of Science'', field = ''Computer Science'',
           institution = ''Unknown'', year = None, level = Bachelor\<rparr>],
        [8, 0, 0, 0, 0])
   \<and> extractEducation [8, 0, 0, 0, 0] ''Bachelor of Science in Computer Science'' = ([], [0, 0, 0, 0, 0])"
proof (intro conjI)
  show "fst (parseResume 2026 [0, 0, 0, 0, 0] ''Bachelor of Science in Computer Science'') = Inl SyntaxError"
    by (simp add: parseResume_SyntaxError)
  show "extractEducation [0, 0, 0, 0, 0] ''Bachelor of Science in Computer Science'' =
       ([\<lparr>degree = ''Bachelor of Science'', field = ''Computer Science'',
           institution = ''Unknown'', year = None, level = Bachelor\<rparr>],
        [8, 0, 0, 0, 0])"
    by code_simp
  show "extractEducation [8, 0, 0, 0, 0] ''Bachelor of Science in Computer Science'' = ([], [0, 0, 0, 0, 0])"
    by code_simp
qed

text \<open>
  Claim C5, amended. The experience stage of \<open>parseResume\<close>, applied to the exact text
  ``Senior Software Engineer at Acme Corp, 2015-2020. - Led a team of 5 engineers.'',
  yields exactly one record: its title is ``Software Engineer'', its company
  ``Acme Corp'', its duration ``2015-2020'', its years in role 5, and its list of
  responsibilities is empty, because the text is one line and that line does not begin
  with a bullet marker. With the bullet on a line of its own the list of responsibilities
  is exactly the one string ``Led a team of 5 engineers.''.
\<close>

theorem C5_experience_scenario:
  "extractExperience currentYear ''Senior Software Engineer at Acme Corp, 2015-2020. - Led a team of 5 engineers.'' =
     [\<lparr>jobTitle = ''Software Engineer'', company = ''Acme Corp'', duration = ''2015-2020'',
        yearsInRole = 5, responsibilities = [], skills = []\<rparr>]
   \<and> extractExperience currentYear
         (''Senior Software Engineer at Acme Corp, 2015-2020.'' @ [CHR 0x0A] @ ''- Led a team of 5 engineers.'') =
     [\<lparr>jobTitle = ''Software Engineer'', company = ''Acme Corp'', duration = ''2015-2020'',
        yearsInRole = 5, responsibilities = [''Led a team of 5 engineers.''], skills = []\<rparr>]"
proof (intro conjI)
  show "extractExperience currentYear ''Senior Software Engineer at Acme Corp, 2015-2020. - Led a team of 5 engineers.'' =
     [\<lparr>jobTitle = ''Software Engineer'', company = ''Acme Corp'', duration = ''2015-2020'',
        yearsInRole = 5, responsibilities = [], skills = []\<rparr>]"
    by code_simp
  show "extractExperience currentYear
         (''Senior Software Engineer at Acme Corp, 2015-2020.'' @ [CHR 0x0A] @ ''- Led a team of 5 engineers.'') =
     [\<lparr>jobTitle = ''Software Engineer'', company = ''Acme Corp'', duration = ''2015-2020'',
        yearsInRole = 5, responsibilities = [''Led a team of 5 engineers.''], skills = []\<rparr>]"
    by code_simp
qed

text \<open>
  C5 as stated: on the exact text the one experience record has no responsibility, and
  \<open>parseResume\<close> itself returns no record.
\<close>

theorem C5_counterexample:
  "map responsibilities (extractExperience 2026 ''Senior Software Engineer at Acme Corp, 2015-2020. - Led a team of 5 engineers.'') = [[]]
   \<and> fst (parseResume 2026 [0, 0, 0, 0, 0] ''Senior Software Engineer at Acme Corp, 2015-2020. - Led a team of 5 engineers.'') = Inl SyntaxError"
proof (intro conjI)
  show "map responsibilities (extractExperience 2026 ''Senior Software Engineer at Acme Corp, 2015-2020. - Led a team of 5 engineers.'') = [[]]"
    by code_simp
  show "fst (parseResume 2026 [0, 0, 0, 0, 0] ''Senior Software Engineer at Acme Corp, 2015-2020. - Led a team of 5 engineers.'') = Inl SyntaxError"
    by (simp add: parseResume_SyntaxError)
qed

text \<open>
  Claim C6. Education extraction tests, for every line, the level patterns in the order
  Bachelor, Master, PhD, Certification, HighSchool, the first matching pattern winning for
  that line. The code on two lines that both hold ``Undergraduate degree in \<dots>'', from
  the state after loading: the first line is tested from index 0 and is a Bachelor
  record; the Bachelor pattern is then tested on the second line from index 13, where the
  first match ended, finds nothing, and the line falls to the Master pattern, which
  matches ``graduate'' inside ``Undergraduate''.
\<close>

theorem C6_second_line_misses_first_pattern:
  "extractEducation [0, 0, 0, 0, 0] (''Undergraduate degree in Physics'' @ [CHR 0x0A] @ ''Undergraduate degree in Chemistry'') =
     ([\<lparr>degree = ''Undergraduate degree'', field = ''Physics'',
         institution = ''Unknown'', year = None, level = Bachelor\<rparr>,
       \<lparr>degree = ''Undergraduate degree'', field = ''Chemistry'',
         institution = ''Unknown'', year = None, level = Master\<rparr>],
      [0, 13, 0, 0, 0])"
  by code_simp

text \<open>
  Claim C7. In skill extraction, hits with the same case-insensitive label are merged, and
  the final skill list is sorted by confidence, descending, and truncated to at most 30
  entries. The code returns no skill list: on every text, for instance
  ``Experienced in React, Python and Agile teamwork'', \<open>extractSkills\<close> throws the
  \<open>SyntaxError\<close> of \<open>new RegExp('\\bc++\\b', 'gi')\<close> while it scans the technical
  vocabulary, before the merge, the sort and the cut are reached. The lower-cased labels
  of the two vocabularies are pairwise distinct, so no two hits of the scan share a
  label.
\<close>

theorem C7_extractSkills_returns_no_list:
  "extractSkills ''Experienced in React, Python and Agile teamwork'' = Inl SyntaxError
   \<and> extractSkills resumeText = Inl SyntaxError
   \<and> distinct (map toLowerCase (TECHNICAL_KEYWORDS @ SOFT_KEYWORDS))"
proof (intro conjI)
  show "extractSkills ''Experienced in React, Python and Agile teamwork'' = Inl SyntaxError"
    by (rule extractSkills_SyntaxError)
  show "extractSkills resumeText = Inl SyntaxError"
    by (rule extractSkills_SyntaxError)
  show "distinct (map toLowerCase (TECHNICAL_KEYWORDS @ SOFT_KEYWORDS))"
    by code_simp
qed

end
